theory Spec2Isabelle
  imports Complex_Main
begin

section \<open>Data model of \<open>parser.py\<close>\<close>

text \<open>
  The document is whatever \<open>json.loads\<close> returns. Python has one \<open>None\<close>: it is the
  JSON value null, the result of a failed path resolution and the result of
  \<open>dict.get\<close> on a missing key, so all three are \<open>JNull\<close> here. A mapping is an
  association list in insertion order. Floats are read as reals: no statement below
  depends on rounding.
\<close>

datatype json =
    JNull
  | JBool bool
  | JInt int
  | JFloat real
  | JStr string
  | JList "json list"
  | JDict "(string \<times> json) list"

datatype py_error = IndexError | KeyError | TypeError | ValueError | ZeroDivisionError

text \<open>\<open>Query(key, operator, value)\<close> of the \<open>query\<close> module.\<close>

record Query =
  key :: string
  operator :: string
  qvalue :: json

type_synonym QueryFunc = "json \<Rightarrow> json \<Rightarrow> bool"

text \<open>
  The functions \<open>parser.py\<close> imports from \<open>helper\<close>, and the two builtins whose result
  depends on the whole value (\<open>str\<close> and the comparison \<open><\<close> used by sorting), are
  parameters of the model. They are taken to return normally.
\<close>

record helpers =
  getNestedValue :: "json \<Rightarrow> string \<Rightarrow> string \<Rightarrow> json"
  deleteNestedValue :: "json \<Rightarrow> string \<Rightarrow> string \<Rightarrow> json"
  makeAlias :: "string \<Rightarrow> string \<Rightarrow> string \<times> string"
  str :: "json \<Rightarrow> string"
  py_lt :: "json \<Rightarrow> json \<Rightarrow> bool"

text \<open>
  The instance attributes set by \<open>__init__\<close>. \<open>More\<close> assigns three further
  attributes, \<open>queryIndex\<close>, \<open>limitRecords\<close> and \<open>distinctProperty\<close>, which do not
  exist before it runs: \<open>None\<close> is the absent attribute. \<open>query_index\<close> starts at 0
  and is only incremented or set to 0, so it is a natural number.
\<close>

record JsonQuery =
  separator :: string
  root_json_content :: json
  json_content :: json
  query_map :: "string \<Rightarrow> QueryFunc option"
  query_index :: nat
  offset_records :: int
  limit_records :: int
  queries :: "Query list list"
  dropped_properties :: "string list"
  attributes :: "string list"
  distinct_property :: string
  queryIndex :: "int option"
  limitRecords :: "int option"
  distinctProperty :: "string option"

definition init :: "(string \<Rightarrow> QueryFunc option) \<Rightarrow> json \<Rightarrow> string \<Rightarrow> JsonQuery" where
  "init defaultQueries doc sep =
     \<lparr>separator = sep, root_json_content = doc, json_content = doc,
      query_map = defaultQueries, query_index = 0,
      offset_records = 0, limit_records = 0,
      queries = [], dropped_properties = [], attributes = [], distinct_property = [],
      queryIndex = None, limitRecords = None, distinctProperty = None\<rparr>"

fun is_dict :: "json \<Rightarrow> bool" where
  "is_dict (JDict d) = True"
| "is_dict v = False"

fun is_list :: "json \<Rightarrow> bool" where
  "is_list (JList xs) = True"
| "is_list v = False"

text \<open>\<open>d.get(k)\<close>: the value, or \<open>None\<close>.\<close>

definition dict_get :: "(string \<times> json) list \<Rightarrow> string \<Rightarrow> json" where
  "dict_get d k = (case map_of d k of None \<Rightarrow> JNull | Some v \<Rightarrow> v)"

text \<open>\<open>d[k] = v\<close>: an existing key keeps its position, a new key goes last.\<close>

fun dict_set :: "(string \<times> 'v) list \<Rightarrow> string \<Rightarrow> 'v \<Rightarrow> (string \<times> 'v) list" where
  "dict_set [] k v = [(k, v)]"
| "dict_set ((k', v') # d) k v = (if k' = k then (k, v) # d else (k', v') # dict_set d k v)"

section \<open>Builder calls\<close>

definition Select :: "JsonQuery \<Rightarrow> string list \<Rightarrow> JsonQuery" where
  "Select s properties = s\<lparr>attributes := attributes s @ properties\<rparr>"

text \<open>
  \<open>Where\<close> indexes \<open>self.__queries[self.__query_index]\<close>, which raises
  \<open>IndexError\<close> when the index is not below the number of groups.
\<close>

definition Where :: "JsonQuery \<Rightarrow> string \<Rightarrow> string \<Rightarrow> json \<Rightarrow> py_error + JsonQuery" where
  "Where s k cond v =
     (let query = \<lparr>key = k, operator = cond, qvalue = v\<rparr> in
      if query_index s = 0 \<and> length (queries s) = 0
      then Inr (s\<lparr>queries := queries s @ [[query]]\<rparr>)
      else if query_index s < length (queries s)
      then Inr (s\<lparr>queries := (queries s)[query_index s := queries s ! query_index s @ [query]]\<rparr>)
      else Inl IndexError)"

definition OrWhere :: "JsonQuery \<Rightarrow> string \<Rightarrow> string \<Rightarrow> json \<Rightarrow> JsonQuery" where
  "OrWhere s k cond v =
     (let s1 = s\<lparr>query_index := query_index s + 1\<rparr>;
          qquery = [\<lparr>key = k, operator = cond, qvalue = v\<rparr>]
      in s1\<lparr>queries := queries s1 @ [qquery]\<rparr>)"

definition Offset :: "JsonQuery \<Rightarrow> int \<Rightarrow> JsonQuery" where
  "Offset s n = s\<lparr>offset_records := n\<rparr>"

definition Limit :: "JsonQuery \<Rightarrow> int \<Rightarrow> JsonQuery" where
  "Limit s n = s\<lparr>limit_records := n\<rparr>"

definition Distinct :: "JsonQuery \<Rightarrow> string \<Rightarrow> JsonQuery" where
  "Distinct s attr = s\<lparr>distinct_property := attr\<rparr>"

definition Drop :: "JsonQuery \<Rightarrow> string list \<Rightarrow> JsonQuery" where
  "Drop s properties = s\<lparr>dropped_properties := dropped_properties s @ properties\<rparr>"

definition Macro :: "JsonQuery \<Rightarrow> string \<Rightarrow> QueryFunc \<Rightarrow> JsonQuery" where
  "Macro s opr func = s\<lparr>query_map := (query_map s)(opr \<mapsto> func)\<rparr>"

definition Reset :: "JsonQuery \<Rightarrow> JsonQuery" where
  "Reset s = s\<lparr>json_content := root_json_content s, queries := [], attributes := [],
               dropped_properties := [], query_index := 0, limit_records := 0,
               offset_records := 0, distinct_property := []\<rparr>"

section \<open>Filter engine\<close>

text \<open>
  The inner loop of \<open>__findInDict\<close> over one group. \<open>None\<close> is the
  \<open>return result\<close> taken when an operator is not in the registry; otherwise the loop
  ends with the value of \<open>and_passed\<close>.
\<close>

fun and_loop :: "helpers \<Rightarrow> JsonQuery \<Rightarrow> json \<Rightarrow> Query list \<Rightarrow> bool \<Rightarrow> bool option" where
  "and_loop h s value_map [] and_passed = Some and_passed"
| "and_loop h s value_map (q # q_list) and_passed =
     (case query_map s (operator q) of
        None \<Rightarrow> None
      | Some cf \<Rightarrow>
          (let v = getNestedValue h value_map (key q) (separator s) in
           if v = JNull then and_loop h s value_map q_list False
           else and_loop h s value_map q_list (and_passed \<and> cf v (qvalue q))))"

text \<open>The outer loop over the groups, with the value of \<open>or_passed\<close>.\<close>

fun or_loop :: "helpers \<Rightarrow> JsonQuery \<Rightarrow> json \<Rightarrow> Query list list \<Rightarrow> bool \<Rightarrow> bool option" where
  "or_loop h s value_map [] or_passed = Some or_passed"
| "or_loop h s value_map (q_list # rest) or_passed =
     (case and_loop h s value_map q_list True of
        None \<Rightarrow> None
      | Some and_passed \<Rightarrow> or_loop h s value_map rest (or_passed \<or> and_passed))"

text \<open>
  \<open>result\<close> is local to \<open>__findInDict\<close> and still empty when the early return is taken.
\<close>

definition findInDict :: "helpers \<Rightarrow> JsonQuery \<Rightarrow> json \<Rightarrow> json list" where
  "findInDict h s value_map =
     (case or_loop h s value_map (queries s) False of
        None \<Rightarrow> []
      | Some or_passed \<Rightarrow> (if or_passed then [value_map] else []))"

fun findInList_loop :: "helpers \<Rightarrow> JsonQuery \<Rightarrow> json list \<Rightarrow> json list \<Rightarrow> json list" where
  "findInList_loop h s [] result = result"
| "findInList_loop h s (v # value_list) result =
     (if is_dict v then findInList_loop h s value_list (result @ findInDict h s v)
      else findInList_loop h s value_list result)"

definition findInList :: "helpers \<Rightarrow> JsonQuery \<Rightarrow> json list \<Rightarrow> json list" where
  "findInList h s value_list = findInList_loop h s value_list []"

definition processQuery :: "helpers \<Rightarrow> JsonQuery \<Rightarrow> JsonQuery" where
  "processQuery h s =
     (case json_content s of
        JList xs \<Rightarrow> s\<lparr>json_content := JList (findInList h s xs)\<rparr>
      | _ \<Rightarrow> s)"

section \<open>Distinct, projection and the preparation pipeline\<close>

text \<open>\<open>m\<close> is the dictionary of keys already seen, \<open>dt\<close> the elements kept.\<close>

fun distinct_loop :: "helpers \<Rightarrow> JsonQuery \<Rightarrow> json list \<Rightarrow> string list \<Rightarrow> json list \<Rightarrow> json list" where
  "distinct_loop h s [] m dt = dt"
| "distinct_loop h s (a # rest) m dt =
     (if is_dict a then
        (let v = getNestedValue h a (distinct_property s) (separator s) in
         if v \<noteq> JNull \<and> str h v \<notin> set m
         then distinct_loop h s rest (str h v # m) (dt @ [a])
         else distinct_loop h s rest m dt)
      else distinct_loop h s rest m dt)"

text \<open>The working view becomes \<open>dt\<close> also when it was not a list: then \<open>dt\<close> is empty.\<close>

definition distinct_q :: "helpers \<Rightarrow> JsonQuery \<Rightarrow> JsonQuery" where
  "distinct_q h s =
     (case json_content s of
        JList xs \<Rightarrow> s\<lparr>json_content := JList (distinct_loop h s xs [] [])\<rparr>
      | _ \<Rightarrow> s\<lparr>json_content := JList []\<rparr>)"

fun only_attrs :: "helpers \<Rightarrow> JsonQuery \<Rightarrow> json \<Rightarrow> string list \<Rightarrow> (string \<times> json) list \<Rightarrow> (string \<times> json) list" where
  "only_attrs h s am [] tmap = tmap"
| "only_attrs h s am (attr # rest) tmap =
     (let (node, alias) = makeAlias h attr (separator s);
          v = getNestedValue h am node (separator s)
      in if v = JNull then only_attrs h s am rest tmap
         else only_attrs h s am rest (dict_set tmap alias v))"

fun only_loop :: "helpers \<Rightarrow> JsonQuery \<Rightarrow> json list \<Rightarrow> json list \<Rightarrow> json list" where
  "only_loop h s [] result = result"
| "only_loop h s (am # rest) result =
     (let tmap = only_attrs h s am (attributes s) [] in
      if length tmap > 0 then only_loop h s rest (result @ [JDict tmap])
      else only_loop h s rest result)"

definition only :: "helpers \<Rightarrow> JsonQuery \<Rightarrow> JsonQuery" where
  "only h s =
     (case json_content s of
        JList xs \<Rightarrow> s\<lparr>json_content := JList (only_loop h s xs [])\<rparr>
      | _ \<Rightarrow> s\<lparr>json_content := JList []\<rparr>)"

definition prepare :: "helpers \<Rightarrow> JsonQuery \<Rightarrow> JsonQuery" where
  "prepare h s =
     (let s1 = (if length (queries s) > 0 then processQuery h s else s);
          s2 = (if distinct_property s1 \<noteq> [] then distinct_q h s1 else s1);
          s3 = (if length (attributes s2) > 0 then only h s2 else s2)
      in s3\<lparr>query_index := 0\<rparr>)"

section \<open>Limit, offset, drop and \<open>Get\<close>\<close>

text \<open>\<open>xs[:n]\<close> for \<open>n > 0\<close> is \<open>take n xs\<close>; \<open>xs[n:]\<close> for \<open>n \<ge> 0\<close> is \<open>drop n xs\<close>.\<close>

definition limit :: "JsonQuery \<Rightarrow> JsonQuery" where
  "limit s =
     (case json_content s of
        JList xs \<Rightarrow>
          (if limit_records s \<le> 0 then s
           else if int (length xs) > limit_records s
           then s\<lparr>json_content := JList (take (nat (limit_records s)) xs)\<rparr>
           else s)
      | _ \<Rightarrow> s)"

definition offset :: "JsonQuery \<Rightarrow> JsonQuery" where
  "offset s =
     (case json_content s of
        JList xs \<Rightarrow>
          (if offset_records s < 0 then s
           else if int (length xs) \<ge> limit_records s
           then s\<lparr>json_content := JList (drop (nat (offset_records s)) xs)\<rparr>
           else s\<lparr>json_content := JList []\<rparr>)
      | _ \<Rightarrow> s)"

definition drop_q :: "helpers \<Rightarrow> JsonQuery \<Rightarrow> JsonQuery" where
  "drop_q h s =
     s\<lparr>json_content :=
         fold (\<lambda>node c. deleteNestedValue h c node (separator s)) (dropped_properties s) (json_content s)\<rparr>"

text \<open>\<open>Get\<close> returns the working view; the instance keeps the state it reached.\<close>

definition Get :: "helpers \<Rightarrow> JsonQuery \<Rightarrow> json \<times> JsonQuery" where
  "Get h s =
     (let s1 = prepare h s;
          s2 = (if offset_records s1 \<noteq> 0 then offset s1 else s1);
          s3 = (if limit_records s2 \<noteq> 0 then limit s2 else s2);
          s4 = (if length (dropped_properties s3) \<noteq> 0 then drop_q h s3 else s3)
      in (json_content s4, s4))"

section \<open>Terminal operations\<close>

text \<open>\<open>xs[i]\<close>: a negative index counts from the end, an index out of range raises.\<close>

definition py_index :: "'a list \<Rightarrow> int \<Rightarrow> py_error + 'a" where
  "py_index xs i =
     (if 0 \<le> i \<and> i < int (length xs) then Inr (xs ! nat i)
      else if i < 0 \<and> - int (length xs) \<le> i then Inr (xs ! nat (int (length xs) + i))
      else Inl IndexError)"

definition First :: "helpers \<Rightarrow> JsonQuery \<Rightarrow> (py_error + json) \<times> JsonQuery" where
  "First h s =
     (let s1 = prepare h s in
      case json_content s1 of
        JList xs \<Rightarrow> (py_index xs 0, s1)
      | _ \<Rightarrow> (Inr JNull, s1))"

definition Last :: "helpers \<Rightarrow> JsonQuery \<Rightarrow> (py_error + json) \<times> JsonQuery" where
  "Last h s =
     (let s1 = prepare h s in
      case json_content s1 of
        JList xs \<Rightarrow> (py_index xs (- 1), s1)
      | _ \<Rightarrow> (Inr JNull, s1))"

definition Nth :: "helpers \<Rightarrow> JsonQuery \<Rightarrow> int \<Rightarrow> (py_error + json) \<times> JsonQuery" where
  "Nth h s i =
     (let s1 = prepare h s in
      case json_content s1 of
        JList xs \<Rightarrow> (py_index xs i, s1)
      | _ \<Rightarrow> (Inr JNull, s1))"

text \<open>\<open>Count\<close>: \<open>None\<close> is the bare \<open>return\<close>.\<close>

definition Count :: "helpers \<Rightarrow> JsonQuery \<Rightarrow> int option \<times> JsonQuery" where
  "Count h s =
     (let s1 = prepare h s in
      case json_content s1 of
        JList xs \<Rightarrow> (Some (int (length xs)), s1)
      | JDict d \<Rightarrow> (Some (int (length d)), s1)
      | _ \<Rightarrow> (None, s1))"

subsection \<open>Aggregation\<close>

text \<open>
  \<open>isinstance(a, float) or isinstance(a, int)\<close>. In Python \<open>bool\<close> is a subclass of
  \<open>int\<close>, so the test holds of \<open>True\<close> and \<open>False\<close>, and \<open>float(True)\<close> is \<open>1.0\<close>.
\<close>

fun is_float_or_int :: "json \<Rightarrow> bool" where
  "is_float_or_int (JFloat r) = True"
| "is_float_or_int (JInt i) = True"
| "is_float_or_int (JBool b) = True"
| "is_float_or_int v = False"

fun to_float :: "json \<Rightarrow> real" where
  "to_float (JFloat r) = r"
| "to_float (JInt i) = real_of_int i"
| "to_float (JBool b) = (if b then 1 else 0)"
| "to_float v = 0"

text \<open>
  The loop of \<open>__getFloatValFromArray\<close>; every \<open>return []\<close> of the source ends it.
  \<open>to_float\<close> is only reached on values that pass the \<open>isinstance\<close> test.
\<close>

fun getFloatValFromArray_loop :: "string list \<Rightarrow> json list \<Rightarrow> real list \<Rightarrow> real list" where
  "getFloatValFromArray_loop properties [] floats = floats"
| "getFloatValFromArray_loop properties (a # rest) floats =
     (if is_float_or_int a then
        (if length properties > 0 then []
         else getFloatValFromArray_loop properties rest (floats @ [to_float a]))
      else
        (case a of
           JDict js_dict \<Rightarrow>
             (if length properties = 0 then []
              else (let dv = dict_get js_dict (properties ! 0) in
                    if dv \<noteq> JNull \<and> is_float_or_int dv
                    then getFloatValFromArray_loop properties rest (floats @ [to_float dv])
                    else []))
         | _ \<Rightarrow> getFloatValFromArray_loop properties rest floats))"

definition getFloatValFromArray :: "json list \<Rightarrow> string list \<Rightarrow> real list" where
  "getFloatValFromArray json_list properties = getFloatValFromArray_loop properties json_list []"

definition getAggregationValues :: "helpers \<Rightarrow> JsonQuery \<Rightarrow> string list \<Rightarrow> real list \<times> JsonQuery" where
  "getAggregationValues h s properties =
     (let s1 = prepare h s;
          s2 = (if distinct_property s1 \<noteq> [] then distinct_q h s1 else s1);
          s3 = (if limit_records s2 \<noteq> 0 then limit s2 else s2)
      in case json_content s3 of
           JList json_list \<Rightarrow> (getFloatValFromArray json_list properties, s3)
         | JDict json_dict \<Rightarrow>
             (if length properties = 0 then ([], s3)
              else (let v = dict_get json_dict (properties ! 0) in
                    if v = JNull then ([], s3)
                    else if is_float_or_int v then ([to_float v], s3)
                    else ([], s3)))
         | _ \<Rightarrow> ([], s3))"

text \<open>
  \<open>sum([])\<close> is 0; \<open>min([])\<close> and \<open>max([])\<close> raise \<open>ValueError\<close>; \<open>Avg\<close> divides by
  \<open>len(floats)\<close> and raises \<open>ZeroDivisionError\<close> on the empty list.
\<close>

definition Sum_q :: "helpers \<Rightarrow> JsonQuery \<Rightarrow> string list \<Rightarrow> real \<times> JsonQuery" where
  "Sum_q h s properties =
     (let (floats, s1) = getAggregationValues h s properties in (sum_list floats, s1))"

definition Min_q :: "helpers \<Rightarrow> JsonQuery \<Rightarrow> string list \<Rightarrow> (py_error + real) \<times> JsonQuery" where
  "Min_q h s properties =
     (let (floats, s1) = getAggregationValues h s properties in
      (case floats of [] \<Rightarrow> Inl ValueError | x # xs \<Rightarrow> Inr (fold min xs x), s1))"

definition Max_q :: "helpers \<Rightarrow> JsonQuery \<Rightarrow> string list \<Rightarrow> (py_error + real) \<times> JsonQuery" where
  "Max_q h s properties =
     (let (floats, s1) = getAggregationValues h s properties in
      (case floats of [] \<Rightarrow> Inl ValueError | x # xs \<Rightarrow> Inr (fold max xs x), s1))"

definition Avg :: "helpers \<Rightarrow> JsonQuery \<Rightarrow> string list \<Rightarrow> (py_error + real) \<times> JsonQuery" where
  "Avg h s properties =
     (let (floats, s1) = getAggregationValues h s properties in
      (if length floats = 0 then Inl ZeroDivisionError
       else Inr (sum_list floats / real (length floats)), s1))"

subsection \<open>Grouping\<close>

text \<open>
  The loop of \<open>GroupBy\<close> over the elements, building \<open>dt\<close>. \<open>None\<close> is the
  \<open>return self\<close> taken inside the loop when the attribute does not resolve.
\<close>

fun GroupBy_loop :: "helpers \<Rightarrow> JsonQuery \<Rightarrow> string \<Rightarrow> json list \<Rightarrow> (string \<times> json list) list
    \<Rightarrow> (string \<times> json list) list option" where
  "GroupBy_loop h s attr [] dt = Some dt"
| "GroupBy_loop h s attr (a # rest) dt =
     (if is_dict a then
        (let v = getNestedValue h a attr (separator s) in
         if v = JNull then None
         else (case map_of dt (str h v) of
                 None \<Rightarrow> GroupBy_loop h s attr rest (dict_set dt (str h v) [a])
               | Some l \<Rightarrow> GroupBy_loop h s attr rest (dict_set dt (str h v) (l @ [a]))))
      else GroupBy_loop h s attr rest dt)"

definition GroupBy :: "helpers \<Rightarrow> JsonQuery \<Rightarrow> string \<Rightarrow> JsonQuery" where
  "GroupBy h s attr =
     (let s1 = prepare h s in
      case json_content s1 of
        JList json_list \<Rightarrow>
          (case GroupBy_loop h s1 attr json_list [] of
             None \<Rightarrow> s1
           | Some dt \<Rightarrow> s1\<lparr>json_content := JDict (map (\<lambda>(k, l). (k, JList l)) dt)\<rparr>)
      | _ \<Rightarrow> s1\<lparr>json_content := JDict []\<rparr>)"

subsection \<open>Sorting\<close>

text \<open>
  \<open>list.sort\<close> and \<open>sorted\<close> compute the key of every element, then sort stably by
  \<open><\<close> on the keys; with \<open>reverse\<close> the order is reversed and equal keys still keep
  their original order. The stable insertion sort below gives the builtin's result
  whenever \<open><\<close> is a strict weak order on the keys.
\<close>

fun insort_by :: "(json \<Rightarrow> json \<Rightarrow> bool) \<Rightarrow> json \<times> json \<Rightarrow> (json \<times> json) list \<Rightarrow> (json \<times> json) list" where
  "insort_by lt x [] = [x]"
| "insort_by lt x (y # ys) = (if lt (fst y) (fst x) then y # insort_by lt x ys else x # y # ys)"

definition py_sorted :: "(json \<Rightarrow> json \<Rightarrow> bool) \<Rightarrow> bool \<Rightarrow> (json \<times> json) list \<Rightarrow> json list" where
  "py_sorted lt reverse kvs =
     map snd (foldr (insort_by (if reverse then (\<lambda>a b. lt b a) else lt)) kvs [])"

definition Sort :: "helpers \<Rightarrow> JsonQuery \<Rightarrow> (json \<Rightarrow> json) option \<Rightarrow> bool \<Rightarrow> JsonQuery" where
  "Sort h s keyf reverse =
     (let s1 = prepare h s in
      case json_content s1 of
        JList json_list \<Rightarrow>
          s1\<lparr>json_content :=
               JList (py_sorted (py_lt h) reverse
                        (map (\<lambda>x. ((case keyf of None \<Rightarrow> x | Some f \<Rightarrow> f x), x)) json_list))\<rparr>
      | _ \<Rightarrow> s1)"

text \<open>
  \<open>itemgetter(attr)\<close> is \<open>a[attr]\<close>: \<open>KeyError\<close> on a mapping without the key,
  \<open>TypeError\<close> on anything that is not a mapping (the attribute is a string).
\<close>

definition itemgetter :: "string \<Rightarrow> json \<Rightarrow> py_error + json" where
  "itemgetter attr a =
     (case a of
        JDict d \<Rightarrow> (case map_of d attr of None \<Rightarrow> Inl KeyError | Some v \<Rightarrow> Inr v)
      | _ \<Rightarrow> Inl TypeError)"

fun keyed :: "string \<Rightarrow> json list \<Rightarrow> py_error + (json \<times> json) list" where
  "keyed attr [] = Inr []"
| "keyed attr (a # rest) =
     (case itemgetter attr a of
        Inl e \<Rightarrow> Inl e
      | Inr k \<Rightarrow> (case keyed attr rest of Inl e \<Rightarrow> Inl e | Inr kvs \<Rightarrow> Inr ((k, a) # kvs)))"

definition SortBy :: "helpers \<Rightarrow> JsonQuery \<Rightarrow> string \<Rightarrow> bool \<Rightarrow> py_error + JsonQuery" where
  "SortBy h s attr reverse =
     (case json_content s of
        JList json_list \<Rightarrow>
          (case keyed attr json_list of
             Inl e \<Rightarrow> Inl e
           | Inr kvs \<Rightarrow> Inr (s\<lparr>json_content := JList (py_sorted (py_lt h) reverse kvs)\<rparr>))
      | _ \<Rightarrow> Inr s)"

subsection \<open>Lifecycle\<close>

definition Only :: "helpers \<Rightarrow> JsonQuery \<Rightarrow> string list \<Rightarrow> JsonQuery" where
  "Only h s properties = prepare h (s\<lparr>attributes := attributes s @ properties\<rparr>)"

text \<open>
  \<open>More\<close> writes \<open>self.queryIndex\<close>, \<open>self.limitRecords\<close> and
  \<open>self.distinctProperty\<close>. Inside the class body the private attributes are
  \<open>self.__query_index\<close>, \<open>self.__limit_records\<close> and \<open>self.__distinct_property\<close>, so these
  three assignments create new attributes and leave the private ones as they are.
\<close>

definition More :: "helpers \<Rightarrow> JsonQuery \<Rightarrow> JsonQuery" where
  "More h s =
     (let (v, s1) = Get h s in
      s1\<lparr>root_json_content := v, queries := [], attributes := [], dropped_properties := [],
         queryIndex := Some 0, limitRecords := Some 0, distinctProperty := Some []\<rparr>)"

section \<open>A sample instantiation of the parameters\<close>

text \<open>
  Used for concrete evaluations only: paths are single top-level keys, nothing is
  deleted or aliased, \<open>str\<close> is the text of a string, \<open><\<close> compares integers, and the
  registry holds the one operator \<open>=\<close>.
\<close>

definition top_get :: "json \<Rightarrow> string \<Rightarrow> string \<Rightarrow> json" where
  "top_get v path sep = (case v of JDict d \<Rightarrow> dict_get d path | _ \<Rightarrow> JNull)"

definition sample_str :: "json \<Rightarrow> string" where
  "sample_str v = (case v of JStr t \<Rightarrow> t | _ \<Rightarrow> [])"

definition sample_lt :: "json \<Rightarrow> json \<Rightarrow> bool" where
  "sample_lt a b = (case a of JInt i \<Rightarrow> (case b of JInt j \<Rightarrow> i < j | _ \<Rightarrow> False) | _ \<Rightarrow> False)"

definition sample_helpers :: helpers where
  "sample_helpers =
     \<lparr>getNestedValue = top_get, deleteNestedValue = (\<lambda>v p sep. v),
      makeAlias = (\<lambda>p sep. (p, p)), str = sample_str, py_lt = sample_lt\<rparr>"

definition sample_ops :: "string \<Rightarrow> QueryFunc option" where
  "sample_ops = [''='' \<mapsto> (\<lambda>a b. a = b)]"

definition sample_query :: "json \<Rightarrow> JsonQuery" where
  "sample_query doc = init sample_ops doc ''.''"

text \<open>Two sample clauses, one with the registered operator and one with an unknown one.\<close>

definition q_eq :: "string \<Rightarrow> json \<Rightarrow> Query" where
  "q_eq k v = \<lparr>key = k, operator = ''='', qvalue = v\<rparr>"

definition q_unknown :: "string \<Rightarrow> json \<Rightarrow> Query" where
  "q_unknown k v = \<lparr>key = k, operator = ''~'', qvalue = v\<rparr>"

definition two_groups :: JsonQuery where
  "two_groups = (sample_query JNull)\<lparr>queries :=
     [[q_eq ''a'' (JInt 1), q_eq ''b'' (JInt 2)], [q_eq ''c'' (JInt 3)]]\<rparr>"

definition unknown_group :: JsonQuery where
  "unknown_group = (sample_query JNull)\<lparr>queries :=
     [[q_eq ''a'' (JInt 1)], [q_unknown ''a'' (JInt 1)]]\<rparr>"

text \<open>Sample instances for the concrete evaluations below.\<close>

definition numbers :: json where
  "numbers = JList [JInt 1, JInt 2, JInt 3]"

definition bool_view :: JsonQuery where
  "bool_view = sample_query (JList [JDict [(''p'', JBool True)]])"

definition limit_view :: JsonQuery where
  "limit_view = Limit (sample_query (JList [JDict [(''p'', JInt 1)], JDict [(''q'', JInt 2)]])) 1"

definition text_view :: JsonQuery where
  "text_view = sample_query (JList [JDict [(''p'', JInt 1)], JDict [(''p'', JStr ''x'')]])"

definition tagged :: JsonQuery where
  "tagged = sample_query (JList [JDict [(''t'', JStr ''a'')], JDict [(''t'', JStr ''b'')],
                                 JDict [(''t'', JStr ''a'')]])"

definition untagged :: JsonQuery where
  "untagged = sample_query (JList [JDict [(''t'', JStr ''a'')], JDict [(''u'', JStr ''b'')]])"

definition shaped :: JsonQuery where
  "shaped = Distinct (Limit (Offset (sample_query numbers) 1) 2) ''k''"

definition pending :: JsonQuery where
  "pending = (sample_query (JList [JDict [(''k'', JInt 2)], JDict [(''k'', JInt 1)]]))
               \<lparr>queries := [[q_eq ''k'' (JInt 1)]]\<rparr>"

section \<open>Notions of the specification\<close>

text \<open>
  An operator is registered when the registry has an entry for its name. A clause
  evaluates true on an element when its operator is registered, its path resolves and
  the predicate holds of the resolved value and the operand. An element matches when
  some group has all of its clauses true.
\<close>

definition registered :: "JsonQuery \<Rightarrow> Query \<Rightarrow> bool" where
  "registered s q = (query_map s (operator q) \<noteq> None)"

definition clause_true :: "helpers \<Rightarrow> JsonQuery \<Rightarrow> json \<Rightarrow> Query \<Rightarrow> bool" where
  "clause_true h s value_map q =
     (case query_map s (operator q) of
        None \<Rightarrow> False
      | Some cf \<Rightarrow> getNestedValue h value_map (key q) (separator s) \<noteq> JNull
                   \<and> cf (getNestedValue h value_map (key q) (separator s)) (qvalue q))"

definition matches :: "helpers \<Rightarrow> JsonQuery \<Rightarrow> json \<Rightarrow> bool" where
  "matches h s value_map = list_ex (list_all (clause_true h s value_map)) (queries s)"

text \<open>
  A number of the specification's value type: booleans and numbers are different
  variants there.
\<close>

definition spec_number :: "json \<Rightarrow> bool" where
  "spec_number v = (case v of JInt i \<Rightarrow> True | JFloat r \<Rightarrow> True | _ \<Rightarrow> False)"

section \<open>The filter engine\<close>

lemma and_loop_registered:
  "list_all (registered s) q_list \<Longrightarrow>
   and_loop h s vm q_list ap = Some (ap \<and> list_all (clause_true h s vm) q_list)"
proof (induction q_list arbitrary: ap)
  case Nil
  then show ?case by simp
next
  case (Cons q q_list)
  then obtain cf where cf: "query_map s (operator q) = Some cf"
    by (auto simp: registered_def)
  from Cons have "list_all (registered s) q_list" by simp
  then show ?case
    using Cons.IH cf by (auto simp: clause_true_def Let_def)
qed

lemma or_loop_registered:
  "list_all (list_all (registered s)) qs \<Longrightarrow>
   or_loop h s vm qs op = Some (op \<or> list_ex (list_all (clause_true h s vm)) qs)"
proof (induction qs arbitrary: op)
  case Nil
  then show ?case by simp
next
  case (Cons q_list qs)
  then show ?case
    by (auto simp: and_loop_registered)
qed

lemma findInDict_registered:
  "list_all (list_all (registered s)) (queries s) \<Longrightarrow>
   findInDict h s vm = (if matches h s vm then [vm] else [])"
  by (simp add: findInDict_def or_loop_registered matches_def)

lemma findInList_loop_registered:
  "list_all (list_all (registered s)) (queries s) \<Longrightarrow>
   findInList_loop h s vl result = result @ filter (\<lambda>v. is_dict v \<and> matches h s v) vl"
  by (induction vl arbitrary: result) (simp_all add: findInDict_registered)

lemma and_loop_unregistered:
  "list_ex (\<lambda>q. \<not> registered s q) q_list \<Longrightarrow> and_loop h s vm q_list ap = None"
  by (induction q_list arbitrary: ap) (auto simp: registered_def Let_def split: option.splits)

lemma or_loop_unregistered:
  "list_ex (list_ex (\<lambda>q. \<not> registered s q)) qs \<Longrightarrow> or_loop h s vm qs op = None"
proof (induction qs arbitrary: op)
  case Nil
  then show ?case by simp
next
  case (Cons q_list qs)
  show ?case
  proof (cases "list_ex (\<lambda>q. \<not> registered s q) q_list")
    case True
    then show ?thesis by (simp add: and_loop_unregistered)
  next
    case False
    with Cons.prems have "list_ex (list_ex (\<lambda>q. \<not> registered s q)) qs" by simp
    then have "\<And>op. or_loop h s vm qs op = None" by (rule Cons.IH)
    then show ?thesis by (simp split: option.splits)
  qed
qed

lemma findInDict_unregistered:
  "list_ex (list_ex (\<lambda>q. \<not> registered s q)) (queries s) \<Longrightarrow> findInDict h s vm = []"
  by (simp add: findInDict_def or_loop_unregistered)

lemma findInList_loop_unregistered:
  "list_ex (list_ex (\<lambda>q. \<not> registered s q)) (queries s) \<Longrightarrow>
   findInList_loop h s vl result = result"
  by (induction vl arbitrary: result) (simp_all add: findInDict_unregistered)

lemma sample_eval:
  "query_map two_groups = sample_ops" "queries two_groups = [[q_eq ''a'' (JInt 1), q_eq ''b'' (JInt 2)], [q_eq ''c'' (JInt 3)]]"
  "separator two_groups = ''.''"
  "query_map unknown_group = sample_ops" "queries unknown_group = [[q_eq ''a'' (JInt 1)], [q_unknown ''a'' (JInt 1)]]"
  "separator unknown_group = ''.''"
  "getNestedValue sample_helpers = top_get"
  "operator (q_eq k v) = ''=''" "key (q_eq k v) = k" "qvalue (q_eq k v) = v"
  "operator (q_unknown k v) = ''~''" "key (q_unknown k v) = k" "qvalue (q_unknown k v) = v"
  "sample_ops ''='' = Some (\<lambda>a b. a = b)" "sample_ops ''~'' = None"
  by (simp_all add: two_groups_def unknown_group_def sample_query_def init_def sample_helpers_def
        q_eq_def q_unknown_def sample_ops_def)

text \<open>
  C1, as amended. When every clause of every group names a registered operator, the
  filter over a sequence keeps exactly the mapping elements for which at least one
  group has all of its clauses true, in their original order. A clause with a
  registered operator whose path does not resolve is false, and the loop goes on to
  the remaining clauses of the group with \<open>and_passed\<close> false.
\<close>

theorem filter_or_of_and:
  assumes "list_all (list_all (registered s)) (queries s)"
  shows "findInList h s vl = filter (\<lambda>v. is_dict v \<and> matches h s v) vl
         \<and> (registered s q \<and> getNestedValue h vm (key q) (separator s) = JNull \<longrightarrow>
              \<not> clause_true h s vm q
              \<and> and_loop h s vm (q # rest) ap = and_loop h s vm rest False)"
  using assms
  by (auto simp: findInList_def findInList_loop_registered registered_def clause_true_def)

theorem filter_or_of_and_witness:
  "list_all (list_all (registered two_groups)) (queries two_groups)
   \<and> findInList sample_helpers two_groups
        [JDict [(''a'', JInt 1)], JInt 7, JDict [(''c'', JInt 3)], JDict [(''a'', JInt 1), (''b'', JInt 2)]]
      = [JDict [(''c'', JInt 3)], JDict [(''a'', JInt 1), (''b'', JInt 2)]]
   \<and> and_loop sample_helpers two_groups
        (JDict [(''b'', JInt 2)]) [q_eq ''a'' (JInt 1), q_eq ''b'' (JInt 2)] True
      = and_loop sample_helpers two_groups (JDict [(''b'', JInt 2)]) [q_eq ''b'' (JInt 2)] False"
  using filter_or_of_and [of two_groups sample_helpers
       "[JDict [(''a'', JInt 1)], JInt 7, JDict [(''c'', JInt 3)], JDict [(''a'', JInt 1), (''b'', JInt 2)]]"
       "q_eq ''a'' (JInt 1)" "JDict [(''b'', JInt 2)]" "[q_eq ''b'' (JInt 2)]" True]
  by (simp add: registered_def matches_def clause_true_def sample_eval top_get_def dict_get_def)

text \<open>
  C1 as stated, for every filter evaluation, fails: the first group of
  \<open>unknown_group\<close> has its only clause true on the element, yet the element is not
  kept, because the second group names an operator that is not registered.
\<close>

theorem filter_or_of_and_counterexample:
  "is_dict (JDict [(''a'', JInt 1)])
   \<and> matches sample_helpers unknown_group (JDict [(''a'', JInt 1)])
   \<and> findInList sample_helpers unknown_group [JDict [(''a'', JInt 1)]] = []"
  by (simp add: matches_def clause_true_def sample_eval top_get_def dict_get_def
        findInList_def findInDict_def)

text \<open>
  C2. If some clause of some group names an operator that is not in the registry, then
  an element contributes nothing, and the filter output for a sequence
  \<open>pre @ v # post\<close> is the output accumulated for \<open>pre\<close>: the element \<open>v\<close> and all
  elements after it are skipped. Since the elements of \<open>pre\<close> meet the same clause,
  that output is empty.
\<close>

theorem unknown_operator_aborts:
  assumes "list_ex (list_ex (\<lambda>q. \<not> registered s q)) (queries s)"
  shows "findInDict h s v = []
         \<and> findInList h s (pre @ v # post) = findInList h s pre
         \<and> findInList h s (pre @ v # post) = []"
  using assms
  by (simp add: findInList_def findInList_loop_unregistered findInDict_unregistered)

theorem unknown_operator_aborts_witness:
  "list_ex (list_ex (\<lambda>q. \<not> registered unknown_group q)) (queries unknown_group)
   \<and> findInDict sample_helpers unknown_group (JDict [(''a'', JInt 1)]) = []
   \<and> findInList sample_helpers unknown_group
        ([JDict [(''a'', JInt 1)]] @ JDict [(''a'', JInt 1)] # [JDict [(''a'', JInt 2)]])
      = findInList sample_helpers unknown_group [JDict [(''a'', JInt 1)]]
   \<and> findInList sample_helpers unknown_group
        ([JDict [(''a'', JInt 1)]] @ JDict [(''a'', JInt 1)] # [JDict [(''a'', JInt 2)]]) = []"
proof -
  have h: "list_ex (list_ex (\<lambda>q. \<not> registered unknown_group q)) (queries unknown_group)"
    by (simp add: registered_def sample_eval)
  show ?thesis
    using h unknown_operator_aborts [OF h, of sample_helpers "JDict [(''a'', JInt 1)]"
        "[JDict [(''a'', JInt 1)]]" "[JDict [(''a'', JInt 2)]]"]
    by blast
qed

section \<open>Offset\<close>

text \<open>
  C3. \<open>__offset\<close> changes nothing when the offset is negative; otherwise, on a
  sequence, it slices from the offset when the length is at least the limit counter
  and clears the sequence when it is not, so with the limit at 0 it always slices;
  with nothing else pending, \<open>Offset(n)\<close> followed by \<open>Get()\<close> returns the sequence
  from index \<open>n\<close> on, and \<open>Offset(2)\<close> over \<open>[1,2,3,4,5]\<close> gives \<open>[3,4,5]\<close>. The
  \<open>clear()\<close> of the source empties the list object in place; the model empties the
  working view, which is what \<open>Get\<close> returns.
\<close>

theorem offset_at_Get:
  "(offset_records s < 0 \<longrightarrow> offset s = s)
   \<and> (0 \<le> offset_records s \<and> json_content s = JList xs \<longrightarrow>
        offset s = s\<lparr>json_content :=
                      (if limit_records s \<le> int (length xs)
                       then JList (drop (nat (offset_records s)) xs) else JList [])\<rparr>)
   \<and> (0 \<le> offset_records s \<and> limit_records s = 0 \<and> json_content s = JList xs \<longrightarrow>
        offset s = s\<lparr>json_content := JList (drop (nat (offset_records s)) xs)\<rparr>)
   \<and> (queries s = [] \<and> distinct_property s = [] \<and> attributes s = []
        \<and> dropped_properties s = [] \<and> limit_records s = 0 \<and> json_content s = JList xs \<longrightarrow>
        fst (Get h (Offset s n)) = JList (if n < 0 then xs else drop (nat n) xs))
   \<and> fst (Get h (Offset (init ops (JList [JInt 1, JInt 2, JInt 3, JInt 4, JInt 5]) sep) 2))
        = JList [JInt 3, JInt 4, JInt 5]"
proof (intro conjI impI)
  show "offset s = s" if "offset_records s < 0"
    using that by (cases "json_content s") (simp_all add: offset_def)
  show "offset s = s\<lparr>json_content :=
                      (if limit_records s \<le> int (length xs)
                       then JList (drop (nat (offset_records s)) xs) else JList [])\<rparr>"
    if "0 \<le> offset_records s \<and> json_content s = JList xs"
    using that by (simp add: offset_def)
  show "offset s = s\<lparr>json_content := JList (drop (nat (offset_records s)) xs)\<rparr>"
    if "0 \<le> offset_records s \<and> limit_records s = 0 \<and> json_content s = JList xs"
    using that by (simp add: offset_def)
  show "fst (Get h (Offset s n)) = JList (if n < 0 then xs else drop (nat n) xs)"
    if "queries s = [] \<and> distinct_property s = [] \<and> attributes s = []
        \<and> dropped_properties s = [] \<and> limit_records s = 0 \<and> json_content s = JList xs"
    using that by (simp add: Get_def Offset_def prepare_def offset_def Let_def)
  show "fst (Get h (Offset (init ops (JList [JInt 1, JInt 2, JInt 3, JInt 4, JInt 5]) sep) 2))
        = JList [JInt 3, JInt 4, JInt 5]"
    by (simp add: Get_def Offset_def init_def prepare_def offset_def)
qed

theorem offset_at_Get_witness:
  "offset (Offset (sample_query numbers) (- 1)) = Offset (sample_query numbers) (- 1)
   \<and> offset (Limit (Offset (sample_query numbers) 1) 5)
     = (Limit (Offset (sample_query numbers) 1) 5)\<lparr>json_content := JList []\<rparr>
   \<and> offset (Offset (sample_query numbers) 1)
     = (Offset (sample_query numbers) 1)\<lparr>json_content := JList [JInt 2, JInt 3]\<rparr>
   \<and> fst (Get sample_helpers (Offset (sample_query numbers) 2)) = JList [JInt 3]
   \<and> fst (Get sample_helpers (Offset (sample_query numbers) (- 2))) = numbers"
  using offset_at_Get [where s = "Offset (sample_query numbers) (- 1)" and xs = "[]"
          and h = sample_helpers and n = 0 and ops = sample_ops and sep = "''.''"]
        offset_at_Get [where s = "Limit (Offset (sample_query numbers) 1) 5"
          and xs = "[JInt 1, JInt 2, JInt 3]"
          and h = sample_helpers and n = 0 and ops = sample_ops and sep = "''.''"]
        offset_at_Get [where s = "Offset (sample_query numbers) 1"
          and xs = "[JInt 1, JInt 2, JInt 3]"
          and h = sample_helpers and n = 0 and ops = sample_ops and sep = "''.''"]
        offset_at_Get [where s = "sample_query numbers" and xs = "[JInt 1, JInt 2, JInt 3]"
          and h = sample_helpers and n = 2 and ops = sample_ops and sep = "''.''"]
        offset_at_Get [where s = "sample_query numbers" and xs = "[JInt 1, JInt 2, JInt 3]"
          and h = sample_helpers and n = "- 2" and ops = sample_ops and sep = "''.''"]
  by (simp add: Offset_def Limit_def sample_query_def init_def numbers_def)

section \<open>What the pipeline steps leave alone\<close>

lemma prepare_idle:
  "queries s = [] \<Longrightarrow> distinct_property s = [] \<Longrightarrow> attributes s = [] \<Longrightarrow>
   prepare h s = s\<lparr>query_index := 0\<rparr>"
  by (simp add: prepare_def)

lemma prepare_frame [simp]:
  "separator (prepare h s) = separator s"
  "root_json_content (prepare h s) = root_json_content s"
  "query_map (prepare h s) = query_map s"
  "offset_records (prepare h s) = offset_records s"
  "limit_records (prepare h s) = limit_records s"
  "queries (prepare h s) = queries s"
  "dropped_properties (prepare h s) = dropped_properties s"
  "attributes (prepare h s) = attributes s"
  "distinct_property (prepare h s) = distinct_property s"
  "query_index (prepare h s) = 0"
  by (simp_all add: prepare_def processQuery_def distinct_q_def only_def Let_def split: json.splits)

lemma offset_frame [simp]:
  "offset_records (offset s) = offset_records s"
  "limit_records (offset s) = limit_records s"
  "queries (offset s) = queries s"
  "dropped_properties (offset s) = dropped_properties s"
  "attributes (offset s) = attributes s"
  "distinct_property (offset s) = distinct_property s"
  "query_index (offset s) = query_index s"
  by (simp_all add: offset_def split: json.splits)

lemma limit_frame [simp]:
  "offset_records (limit s) = offset_records s"
  "limit_records (limit s) = limit_records s"
  "queries (limit s) = queries s"
  "dropped_properties (limit s) = dropped_properties s"
  "attributes (limit s) = attributes s"
  "distinct_property (limit s) = distinct_property s"
  "query_index (limit s) = query_index s"
  by (simp_all add: limit_def split: json.splits)

lemma drop_q_frame [simp]:
  "offset_records (drop_q h s) = offset_records s"
  "limit_records (drop_q h s) = limit_records s"
  "queries (drop_q h s) = queries s"
  "dropped_properties (drop_q h s) = dropped_properties s"
  "attributes (drop_q h s) = attributes s"
  "distinct_property (drop_q h s) = distinct_property s"
  "query_index (drop_q h s) = query_index s"
  by (simp_all add: drop_q_def)

lemma Get_frame:
  "offset_records (snd (Get h s)) = offset_records s"
  "limit_records (snd (Get h s)) = limit_records s"
  "queries (snd (Get h s)) = queries s"
  "dropped_properties (snd (Get h s)) = dropped_properties s"
  "attributes (snd (Get h s)) = attributes s"
  "distinct_property (snd (Get h s)) = distinct_property s"
  "query_index (snd (Get h s)) = 0"
  "json_content (snd (Get h s)) = fst (Get h s)"
  by (simp_all add: Get_def Let_def)

section \<open>Aggregation\<close>

lemma getAggregationValues_idle:
  "queries s = [] \<Longrightarrow> distinct_property s = [] \<Longrightarrow> attributes s = [] \<Longrightarrow>
   limit_records s = 0 \<Longrightarrow> json_content s = JList xs \<Longrightarrow>
   getAggregationValues h s properties = (getFloatValFromArray xs properties, s\<lparr>query_index := 0\<rparr>)"
  by (simp add: getAggregationValues_def prepare_idle)

lemma bool_view_values: "fst (getAggregationValues sample_helpers bool_view [''p'']) = [1]"
  by (simp add: getAggregationValues_idle [where xs = "[JDict [(''p'', JBool True)]]"]
        bool_view_def sample_query_def init_def getFloatValFromArray_def dict_get_def)

lemma limit_view_values: "fst (getAggregationValues sample_helpers limit_view [''p'']) = [1]"
  by (simp add: getAggregationValues_def prepare_idle limit_def
        limit_view_def Limit_def sample_query_def init_def getFloatValFromArray_def dict_get_def)

lemma getFloatValFromArray_loop_abort:
  "properties \<noteq> [] \<Longrightarrow> JDict d \<in> set json_list \<Longrightarrow>
   \<not> is_float_or_int (dict_get d (properties ! 0)) \<Longrightarrow>
   getFloatValFromArray_loop properties json_list floats = []"
proof (induction json_list arbitrary: floats)
  case Nil
  then show ?case by simp
next
  case (Cons a rest)
  show ?case
  proof (cases "a = JDict d")
    case True
    with Cons.prems show ?thesis by simp
  next
    case False
    with Cons.prems have "JDict d \<in> set rest" by simp
    then have "\<And>fl. getFloatValFromArray_loop properties rest fl = []"
      using Cons.IH Cons.prems(1,3) by blast
    then show ?thesis
      using Cons.prems(1) by (cases a) (simp_all add: Let_def)
  qed
qed

lemma getAggregationValues_list:
  assumes "json_content (snd (getAggregationValues h s properties)) = JList json_list"
  shows "fst (getAggregationValues h s properties) = getFloatValFromArray json_list properties"
proof -
  define s3 where "s3 =
     (let s1 = prepare h s;
          s2 = (if distinct_property s1 \<noteq> [] then distinct_q h s1 else s1)
      in (if limit_records s2 \<noteq> 0 then limit s2 else s2))"
  have g: "getAggregationValues h s properties =
     (case json_content s3 of
           JList json_list \<Rightarrow> (getFloatValFromArray json_list properties, s3)
         | JDict json_dict \<Rightarrow>
             (if length properties = 0 then ([], s3)
              else (let v = dict_get json_dict (properties ! 0) in
                    if v = JNull then ([], s3)
                    else if is_float_or_int v then ([to_float v], s3)
                    else ([], s3)))
         | _ \<Rightarrow> ([], s3))"
    unfolding getAggregationValues_def s3_def Let_def by (rule refl)
  have "snd (getAggregationValues h s properties) = s3"
    unfolding g by (cases "json_content s3") (simp_all add: Let_def)
  with assms have "json_content s3 = JList json_list" by simp
  then show ?thesis unfolding g by simp
qed


text \<open>
  C4, as amended. When the view from which the values are collected (the working view
  after \<open>__getAggregationValues\<close> has run the preparation and its second distinct and
  limit pass) is a sequence, a mapping element in it that lacks the first supplied
  property name, or holds there a value that fails the test
  \<open>isinstance(dv, float) or isinstance(dv, int)\<close>, makes the collected value set
  empty. On an empty value set \<open>Sum\<close> returns zero, \<open>Avg\<close> raises
  \<open>ZeroDivisionError\<close>, and \<open>Min\<close> and \<open>Max\<close> raise \<open>ValueError\<close>.
\<close>

theorem aggregate_all_or_nothing:
  "(json_content (snd (getAggregationValues h s properties)) = JList json_list
      \<and> properties \<noteq> [] \<and> JDict d \<in> set json_list
      \<and> \<not> is_float_or_int (dict_get d (properties ! 0))
    \<longrightarrow> fst (getAggregationValues h s properties) = [])
   \<and> (fst (getAggregationValues h s properties) = []
    \<longrightarrow> fst (Sum_q h s properties) = 0
      \<and> fst (Avg h s properties) = Inl ZeroDivisionError
      \<and> fst (Min_q h s properties) = Inl ValueError
      \<and> fst (Max_q h s properties) = Inl ValueError)"
proof (intro conjI impI)
  assume a: "json_content (snd (getAggregationValues h s properties)) = JList json_list
      \<and> properties \<noteq> [] \<and> JDict d \<in> set json_list
      \<and> \<not> is_float_or_int (dict_get d (properties ! 0))"
  then have "properties \<noteq> []" and "JDict d \<in> set json_list"
    and "\<not> is_float_or_int (dict_get d (properties ! 0))"
    by simp_all
  then have "getFloatValFromArray json_list properties = []"
    unfolding getFloatValFromArray_def by (rule getFloatValFromArray_loop_abort)
  with a show "fst (getAggregationValues h s properties) = []"
    by (simp add: getAggregationValues_list)
next
  assume e: "fst (getAggregationValues h s properties) = []"
  then show "fst (Sum_q h s properties) = 0"
    by (simp add: Sum_q_def split_beta)
  from e show "fst (Avg h s properties) = Inl ZeroDivisionError"
    by (simp add: Avg_def split_beta)
  from e show "fst (Min_q h s properties) = Inl ValueError"
    by (simp add: Min_q_def split_beta)
  from e show "fst (Max_q h s properties) = Inl ValueError"
    by (simp add: Max_q_def split_beta)
qed

lemma text_view_values:
  "getAggregationValues sample_helpers text_view [''p''] = ([], text_view)"
  by (simp add: getAggregationValues_idle [where xs = "[JDict [(''p'', JInt 1)], JDict [(''p'', JStr ''x'')]]"]
        text_view_def sample_query_def init_def getFloatValFromArray_def dict_get_def)

theorem aggregate_all_or_nothing_witness:
  "json_content (snd (getAggregationValues sample_helpers text_view [''p'']))
     = JList [JDict [(''p'', JInt 1)], JDict [(''p'', JStr ''x'')]]
   \<and> [''p''] \<noteq> []
   \<and> JDict [(''p'', JStr ''x'')] \<in> set [JDict [(''p'', JInt 1)], JDict [(''p'', JStr ''x'')]]
   \<and> \<not> is_float_or_int (dict_get [(''p'', JStr ''x'')] ([''p''] ! 0))
   \<and> fst (getAggregationValues sample_helpers text_view [''p'']) = []
   \<and> fst (Sum_q sample_helpers text_view [''p'']) = 0
   \<and> fst (Avg sample_helpers text_view [''p'']) = Inl ZeroDivisionError
   \<and> fst (Min_q sample_helpers text_view [''p'']) = Inl ValueError
   \<and> fst (Max_q sample_helpers text_view [''p'']) = Inl ValueError"
  using aggregate_all_or_nothing [of sample_helpers text_view "[''p'']"
          "[JDict [(''p'', JInt 1)], JDict [(''p'', JStr ''x'')]]" "[(''p'', JStr ''x'')]"]
  by (simp add: text_view_values dict_get_def)
     (simp add: text_view_def sample_query_def init_def)

text \<open>
  C4 as stated fails twice. A boolean is not a number of the specification, yet it
  passes the \<open>isinstance\<close> test and is collected as \<open>1.0\<close>. And an element of the
  prepared view that lacks the property does not empty the set when the limit pass
  of the aggregation has cut it off before the values are collected.
\<close>

theorem aggregate_all_or_nothing_counterexample:
  "json_content (prepare sample_helpers bool_view) = JList [JDict [(''p'', JBool True)]]
   \<and> \<not> spec_number (dict_get [(''p'', JBool True)] ''p'')
   \<and> fst (getAggregationValues sample_helpers bool_view [''p'']) = [1]
   \<and> json_content (prepare sample_helpers limit_view)
       = JList [JDict [(''p'', JInt 1)], JDict [(''q'', JInt 2)]]
   \<and> dict_get [(''q'', JInt 2)] ''p'' = JNull
   \<and> fst (getAggregationValues sample_helpers limit_view [''p'']) = [1]"
  by (simp add: bool_view_values limit_view_values spec_number_def dict_get_def)
     (simp add: prepare_def bool_view_def limit_view_def Limit_def sample_query_def init_def)

section \<open>Grouping\<close>

lemma GroupBy_loop_abort:
  "a \<in> set json_list \<Longrightarrow> is_dict a \<Longrightarrow> getNestedValue h a attr (separator s) = JNull \<Longrightarrow>
   GroupBy_loop h s attr json_list dt = None"
proof (induction json_list arbitrary: dt)
  case Nil
  then show ?case by simp
next
  case (Cons b rest)
  show ?case
  proof (cases "b = a")
    case True
    with Cons.prems show ?thesis by simp
  next
    case False
    with Cons.prems have "\<And>dt. GroupBy_loop h s attr rest dt = None"
      using Cons.IH by simp
    then show ?thesis by (simp add: Let_def split: option.splits)
  qed
qed

text \<open>
  C5. If the prepared view is a sequence with a mapping element on which the
  attribute does not resolve, \<open>GroupBy\<close> returns the instance exactly as the
  preparation step left it: the working view is not replaced by the partly built
  grouping.
\<close>

theorem GroupBy_abort_leaves_view:
  assumes "json_content (prepare h s) = JList json_list"
    and "a \<in> set json_list" and "is_dict a"
    and "getNestedValue h a attr (separator s) = JNull"
  shows "GroupBy h s attr = prepare h s"
  using assms GroupBy_loop_abort [of a json_list h attr "prepare h s" "[]"]
  by (simp add: GroupBy_def)


theorem GroupBy_abort_leaves_view_witness:
  "json_content (prepare sample_helpers untagged)
     = JList [JDict [(''t'', JStr ''a'')], JDict [(''u'', JStr ''b'')]]
   \<and> JDict [(''u'', JStr ''b'')] \<in> set [JDict [(''t'', JStr ''a'')], JDict [(''u'', JStr ''b'')]]
   \<and> is_dict (JDict [(''u'', JStr ''b'')])
   \<and> getNestedValue sample_helpers (JDict [(''u'', JStr ''b'')]) ''t'' (separator untagged) = JNull
   \<and> GroupBy sample_helpers untagged ''t'' = prepare sample_helpers untagged"
proof -
  have p: "json_content (prepare sample_helpers untagged)
     = JList [JDict [(''t'', JStr ''a'')], JDict [(''u'', JStr ''b'')]]"
    by (simp add: prepare_def untagged_def sample_query_def init_def)
  have m: "JDict [(''u'', JStr ''b'')] \<in> set [JDict [(''t'', JStr ''a'')], JDict [(''u'', JStr ''b'')]]"
    by simp
  have d: "is_dict (JDict [(''u'', JStr ''b'')])" by simp
  have n: "getNestedValue sample_helpers (JDict [(''u'', JStr ''b'')]) ''t'' (separator untagged) = JNull"
    by (simp add: sample_helpers_def top_get_def dict_get_def)
  show ?thesis
    using p m d n GroupBy_abort_leaves_view [OF p m d n] by blast
qed

text \<open>The grouping itself, on the example of the specification.\<close>

lemma GroupBy_groups:
  "json_content (GroupBy sample_helpers tagged ''t'') =
     JDict [(''a'', JList [JDict [(''t'', JStr ''a'')], JDict [(''t'', JStr ''a'')]]),
            (''b'', JList [JDict [(''t'', JStr ''b'')]])]"
  by (simp add: GroupBy_def prepare_def tagged_def sample_query_def init_def
        sample_helpers_def top_get_def dict_get_def sample_str_def Let_def)

section \<open>Lifecycle\<close>

lemma More_keeps_counters:
  "limit_records (More h s) = limit_records s"
  "offset_records (More h s) = offset_records s"
  "distinct_property (More h s) = distinct_property s"
  "root_json_content (More h s) = fst (Get h s)"
  "queries (More h s) = []" "attributes (More h s) = []" "dropped_properties (More h s) = []"
  "query_index (More h s) = 0"
  using Get_frame [of h s]
  by (simp_all add: More_def split_beta)

text \<open>
  C6. \<open>More\<close> makes the result of \<open>Get\<close> the new root and empties the filter groups,
  the projection attributes and the drop list, and the group index is 0 after the
  preparation step. The limit counter, the offset counter and the distinct key keep
  their values: the assignments meant to clear them go to attributes of other names,
  and the offset is not assigned at all. On an instance with \<open>Offset(1)\<close>,
  \<open>Limit(2)\<close> and \<open>Distinct("k")\<close>:
\<close>

theorem More_leaves_counters:
  "limit_records (More sample_helpers shaped) = 2
   \<and> offset_records (More sample_helpers shaped) = 1
   \<and> distinct_property (More sample_helpers shaped) = ''k''
   \<and> limitRecords (More sample_helpers shaped) = Some 0
   \<and> distinctProperty (More sample_helpers shaped) = Some []"
  by (simp add: More_keeps_counters)
     (simp add: shaped_def Distinct_def Limit_def Offset_def sample_query_def init_def More_def split_beta)

section \<open>Where and OrWhere\<close>

text \<open>
  C7. On a fresh instance \<open>OrWhere\<close> raises the group index to 1 while there is one
  group, at index 0. A \<open>Where\<close> after it reads \<open>self.__queries[1]\<close> and raises
  \<open>IndexError\<close>.
\<close>

theorem OrWhere_first_then_Where_fails:
  "Where (OrWhere (init ops doc sep) k1 c1 v1) k2 c2 v2 = Inl IndexError"
  by (simp add: Where_def OrWhere_def init_def Let_def)

text \<open>
  When the group index is the index of the last group, as it is after any sequence of
  calls that starts with \<open>Where\<close>, \<open>Where\<close> appends its clause to the last group.
\<close>

lemma update_last: "xs \<noteq> [] \<Longrightarrow> xs[length xs - Suc 0 := x] = butlast xs @ [x]"
  by (cases xs rule: rev_cases) (simp_all add: list_update_append)

lemma Where_appends_to_last:
  assumes "query_index s + 1 = length (queries s)"
  shows "Where s k c v =
     Inr (s\<lparr>queries := butlast (queries s) @ [last (queries s) @ [\<lparr>key = k, operator = c, qvalue = v\<rparr>]]\<rparr>)"
proof -
  have ne: "queries s \<noteq> []" using assms by auto
  have i: "query_index s = length (queries s) - 1" using assms by simp
  have l: "queries s ! (length (queries s) - Suc 0) = last (queries s)"
    using ne by (simp add: last_conv_nth)
  show ?thesis
    using ne by (simp add: Where_def Let_def i l update_last)
qed

section \<open>Calling \<open>Get\<close> twice\<close>

text \<open>
  C8. \<open>Get\<close> keeps the pending builder state (filter groups, projection attributes,
  drop list, offset, limit and distinct key; it does reset the group index, in the
  preparation step), and the working view it leaves is the result it returned. So a
  second \<open>Get\<close> runs the pipeline again on the shaped view: with \<open>Offset(1)\<close> over
  \<open>[1,2,3]\<close> the first call returns \<open>[2,3]\<close> and the second \<open>[3]\<close>.
\<close>

theorem Get_not_idempotent:
  "queries (snd (Get h s)) = queries s
   \<and> attributes (snd (Get h s)) = attributes s
   \<and> dropped_properties (snd (Get h s)) = dropped_properties s
   \<and> offset_records (snd (Get h s)) = offset_records s
   \<and> limit_records (snd (Get h s)) = limit_records s
   \<and> distinct_property (snd (Get h s)) = distinct_property s
   \<and> json_content (snd (Get h s)) = fst (Get h s)
   \<and> fst (Get h (Offset (init ops numbers sep) 1)) = JList [JInt 2, JInt 3]
   \<and> fst (Get h (snd (Get h (Offset (init ops numbers sep) 1)))) = JList [JInt 3]"
  by (simp add: Get_frame)
     (simp add: Get_def Offset_def init_def prepare_def offset_def numbers_def)

section \<open>Sorting\<close>

lemma pending_prepare:
  "prepare sample_helpers pending = pending\<lparr>json_content := JList [JDict [(''k'', JInt 1)]]\<rparr>"
  by (simp add: prepare_def processQuery_def findInList_def findInDict_def pending_def
        sample_query_def init_def sample_helpers_def sample_ops_def q_eq_def top_get_def dict_get_def)

text \<open>
  C9. \<open>Sort\<close> runs the preparation step and sorts the prepared view (or returns the
  prepared instance when that view is not a sequence). \<open>SortBy\<close> reads the current
  working view only: it sorts it by the attribute, or raises what \<open>itemgetter\<close>
  raises, or returns the instance unchanged when the view is not a sequence; the
  pending filter, distinct and projection state is neither applied nor changed. On an
  instance with a pending filter the two differ.
\<close>

theorem Sort_prepares_SortBy_does_not:
  "(json_content (prepare h s) = JList xs \<longrightarrow>
      Sort h s keyf reverse =
        (prepare h s)\<lparr>json_content :=
           JList (py_sorted (py_lt h) reverse
                    (map (\<lambda>x. ((case keyf of None \<Rightarrow> x | Some f \<Rightarrow> f x), x)) xs))\<rparr>)
   \<and> (\<not> is_list (json_content (prepare h s)) \<longrightarrow> Sort h s keyf reverse = prepare h s)
   \<and> (json_content s = JList ys \<and> keyed attr ys = Inr kvs \<longrightarrow>
      SortBy h s attr reverse = Inr (s\<lparr>json_content := JList (py_sorted (py_lt h) reverse kvs)\<rparr>))
   \<and> (json_content s = JList ys \<and> keyed attr ys = Inl e \<longrightarrow> SortBy h s attr reverse = Inl e)
   \<and> (\<not> is_list (json_content s) \<longrightarrow> SortBy h s attr reverse = Inr s)
   \<and> json_content (Sort sample_helpers pending None False) = JList [JDict [(''k'', JInt 1)]]
   \<and> SortBy sample_helpers pending ''k'' False =
       Inr (pending\<lparr>json_content := JList [JDict [(''k'', JInt 1)], JDict [(''k'', JInt 2)]]\<rparr>)"
proof (intro conjI impI)
  show "Sort h s keyf reverse =
        (prepare h s)\<lparr>json_content :=
           JList (py_sorted (py_lt h) reverse
                    (map (\<lambda>x. ((case keyf of None \<Rightarrow> x | Some f \<Rightarrow> f x), x)) xs))\<rparr>"
    if "json_content (prepare h s) = JList xs"
    using that by (simp add: Sort_def)
  show "Sort h s keyf reverse = prepare h s" if "\<not> is_list (json_content (prepare h s))"
    using that by (cases "json_content (prepare h s)") (simp_all add: Sort_def)
  show "SortBy h s attr reverse = Inr (s\<lparr>json_content := JList (py_sorted (py_lt h) reverse kvs)\<rparr>)"
    if "json_content s = JList ys \<and> keyed attr ys = Inr kvs"
    using that by (simp add: SortBy_def)
  show "SortBy h s attr reverse = Inl e" if "json_content s = JList ys \<and> keyed attr ys = Inl e"
    using that by (simp add: SortBy_def)
  show "SortBy h s attr reverse = Inr s" if "\<not> is_list (json_content s)"
    using that by (cases "json_content s") (simp_all add: SortBy_def)
  show "json_content (Sort sample_helpers pending None False) = JList [JDict [(''k'', JInt 1)]]"
    by (simp add: Sort_def pending_prepare py_sorted_def)
  show "SortBy sample_helpers pending ''k'' False =
       Inr (pending\<lparr>json_content := JList [JDict [(''k'', JInt 1)], JDict [(''k'', JInt 2)]]\<rparr>)"
    by (simp add: SortBy_def pending_def sample_query_def init_def itemgetter_def py_sorted_def
          sample_helpers_def sample_lt_def)
qed

theorem Sort_prepares_SortBy_does_not_witness:
  "json_content (prepare sample_helpers pending) = JList [JDict [(''k'', JInt 1)]]
   \<and> Sort sample_helpers pending None False = prepare sample_helpers pending
   \<and> json_content pending = JList [JDict [(''k'', JInt 2)], JDict [(''k'', JInt 1)]]
   \<and> keyed ''k'' [JDict [(''k'', JInt 2)], JDict [(''k'', JInt 1)]]
       = Inr [(JInt 2, JDict [(''k'', JInt 2)]), (JInt 1, JDict [(''k'', JInt 1)])]
   \<and> SortBy sample_helpers pending ''k'' False =
       Inr (pending\<lparr>json_content := JList [JDict [(''k'', JInt 1)], JDict [(''k'', JInt 2)]]\<rparr>)
   \<and> keyed ''j'' [JDict [(''k'', JInt 2)], JDict [(''k'', JInt 1)]] = Inl KeyError
   \<and> SortBy sample_helpers pending ''j'' False = Inl KeyError
   \<and> \<not> is_list (json_content (sample_query JNull))
   \<and> SortBy sample_helpers (sample_query JNull) ''k'' False = Inr (sample_query JNull)
   \<and> Sort sample_helpers (sample_query JNull) None False = prepare sample_helpers (sample_query JNull)"
  using Sort_prepares_SortBy_does_not [of sample_helpers pending "[JDict [(''k'', JInt 1)]]" None False
          "[JDict [(''k'', JInt 2)], JDict [(''k'', JInt 1)]]" "''k''"
          "[(JInt 2, JDict [(''k'', JInt 2)]), (JInt 1, JDict [(''k'', JInt 1)])]" KeyError]
        Sort_prepares_SortBy_does_not [of sample_helpers pending "[JDict [(''k'', JInt 1)]]" None False
          "[JDict [(''k'', JInt 2)], JDict [(''k'', JInt 1)]]" "''j''"
          "[]" KeyError]
        Sort_prepares_SortBy_does_not [of sample_helpers "sample_query JNull" "[]" None False
          "[]" "''k''" "[]" KeyError]
  by (simp add: pending_prepare py_sorted_def itemgetter_def)
     (simp add: pending_def sample_query_def init_def prepare_def)

section \<open>First and Last\<close>

text \<open>
  C10. \<open>First\<close> and \<open>Last\<close> return \<open>None\<close> as their "no value" result when the
  prepared view is not a sequence. On an empty sequence they raise \<open>IndexError\<close>. On
  a sequence with elements they return the first and the last element.
\<close>

theorem First_Last_no_value:
  "(\<not> is_list (json_content (prepare h s)) \<longrightarrow>
      fst (First h s) = Inr JNull \<and> fst (Last h s) = Inr JNull)
   \<and> (json_content (prepare h s) = JList [] \<longrightarrow>
      fst (First h s) = Inl IndexError \<and> fst (Last h s) = Inl IndexError)
   \<and> (json_content (prepare h s) = JList (x # xs) \<longrightarrow>
      fst (First h s) = Inr x \<and> fst (Last h s) = Inr (last (x # xs)))"
proof (intro conjI impI)
  assume "\<not> is_list (json_content (prepare h s))"
  then show "fst (First h s) = Inr JNull" "fst (Last h s) = Inr JNull"
    by (cases "json_content (prepare h s)"; simp add: First_def Last_def)+
next
  assume "json_content (prepare h s) = JList []"
  then show "fst (First h s) = Inl IndexError" "fst (Last h s) = Inl IndexError"
    by (simp_all add: First_def Last_def py_index_def)
next
  assume v: "json_content (prepare h s) = JList (x # xs)"
  then show "fst (First h s) = Inr x"
    by (simp add: First_def py_index_def)
  have "(x # xs) ! nat (int (length xs)) = last (x # xs)"
    using last_conv_nth [of "x # xs"] by simp
  with v show "fst (Last h s) = Inr (last (x # xs))"
    by (simp add: Last_def py_index_def Let_def)
qed


theorem First_Last_no_value_witness:
  "\<not> is_list (json_content (prepare sample_helpers (sample_query (JStr ''x''))))
   \<and> fst (First sample_helpers (sample_query (JStr ''x''))) = Inr JNull
   \<and> fst (Last sample_helpers (sample_query (JStr ''x''))) = Inr JNull
   \<and> json_content (prepare sample_helpers (sample_query (JList []))) = JList []
   \<and> fst (First sample_helpers (sample_query (JList []))) = Inl IndexError
   \<and> fst (Last sample_helpers (sample_query (JList []))) = Inl IndexError
   \<and> json_content (prepare sample_helpers (sample_query numbers)) = JList (JInt 1 # [JInt 2, JInt 3])
   \<and> fst (First sample_helpers (sample_query numbers)) = Inr (JInt 1)
   \<and> fst (Last sample_helpers (sample_query numbers)) = Inr (JInt 3)"
  using First_Last_no_value [of sample_helpers "sample_query (JStr ''x'')" "JInt 1" "[]"]
        First_Last_no_value [of sample_helpers "sample_query (JList [])" "JInt 1" "[]"]
        First_Last_no_value [of sample_helpers "sample_query numbers" "JInt 1" "[JInt 2, JInt 3]"]
  by (simp add: prepare_def sample_query_def init_def numbers_def)

end
